theory Spec2Isabelle
  imports Main "HOL-Library.Multiset"
begin

section \<open>Data model\<close>

text \<open>
  The ORM classes of \<^verbatim>\<open>database/models.py\<close> are used by
  \<^verbatim>\<open>database/setup.py\<close> and by the tests through three attributes of a
  dataset description (\<^verbatim>\<open>name\<close>, \<^verbatim>\<open>node\<close>,
  \<^verbatim>\<open>node_specific_identifier\<close>) and two of a publication
  (\<^verbatim>\<open>title\<close>, \<^verbatim>\<open>datasets\<close>). A fetched object has no
  identifier yet: the store assigns one when the object is inserted.

  \<^verbatim>\<open>publication.datasets\<close> is a list of references to dataset objects. A reference
  is modelled as the position of the object in the list of fetched datasets that is
  linked and inserted together with the publication.

  A Python string is the list of its Unicode code points. \<open>str\<close> gives the string of
  an ASCII literal.
\<close>

type_synonym py_str = "nat list"

definition str :: "string \<Rightarrow> py_str" where
  "str s = map of_char s"

record DatasetDescription =
  name :: py_str
  node :: py_str
  node_specific_identifier :: py_str

record Publication =
  title :: py_str
  datasets :: "nat list"

text \<open>
  The relational store: the two entity tables, each row with its store-assigned
  identifier, and the association table of (publication id, dataset id) pairs.
\<close>

record store =
  dataset_table :: "(nat \<times> DatasetDescription) list"
  publication_table :: "(nat \<times> py_str) list"
  link_table :: "(nat \<times> nat) list"

definition empty_store :: store where
  "empty_store = \<lparr>dataset_table = [], publication_table = [], link_table = []\<rparr>"

section \<open>Errors and connectors\<close>

text \<open>
  Exceptions are values. \<^verbatim>\<open>ValueError\<close> is what \<^verbatim>\<open>int()\<close> raises on a
  string that is no integer literal; \<^verbatim>\<open>ConnectorError\<close> stands for whatever a
  connector raises.
\<close>

datatype error = ConnectorError string | ValueError py_str

text \<open>
  \<^verbatim>\<open>fetch_all(limit=...)\<close> either raises when it is called, or returns an iterator.
  The iterator yields finitely many records and then either stops or raises.
\<close>

datatype 'a iterator = Iterator "'a list" "error option"

type_synonym 'a fetch_all = "int option \<Rightarrow> error + 'a iterator"

text \<open>
  \<^verbatim>\<open>[c.fetch_all(limit=limit) for c in connectors]\<close>: every connector is called, in
  list order, before any iterator is advanced; the first call that raises ends the
  comprehension.
\<close>

fun call_fetch_all :: "'a fetch_all list \<Rightarrow> int option \<Rightarrow> error + 'a iterator list" where
  "call_fetch_all [] limit = Inr []"
| "call_fetch_all (c # cs) limit =
     (case c limit of
        Inl e \<Rightarrow> Inl e
      | Inr it \<Rightarrow>
          (case call_fetch_all cs limit of
             Inl e \<Rightarrow> Inl e
           | Inr its \<Rightarrow> Inr (it # its)))"

text \<open>
  \<^verbatim>\<open>list(itertools.chain(*iterators))\<close>: the iterators are exhausted one after the
  other; the first one that raises ends the materialisation.
\<close>

fun list_chain :: "'a iterator list \<Rightarrow> error + 'a list" where
  "list_chain [] = Inr []"
| "list_chain (Iterator xs (Some e) # its) = Inl e"
| "list_chain (Iterator xs None # its) =
     (case list_chain its of
        Inl e \<Rightarrow> Inl e
      | Inr ys \<Rightarrow> Inr (xs @ ys))"

text \<open>
  \<^verbatim>\<open>iter(())\<close> when the connector list is \<^verbatim>\<open>None\<close>, the chain of the
  connectors' iterators otherwise.
\<close>

definition make_iterable :: "'a fetch_all list option \<Rightarrow> int option \<Rightarrow> error + 'a iterator list" where
  "make_iterable connectors limit =
     (case connectors of
        None \<Rightarrow> Inr []
      | Some cs \<Rightarrow> call_fetch_all cs limit)"

section \<open>Integer literals\<close>

text \<open>
  \<^verbatim>\<open>int(s)\<close> on a string, base 10, as the interpreter (CPython 3.11, Unicode 14.0)
  computes it. The string is first brought to ASCII: a character outside ASCII that is
  Unicode whitespace becomes a space, one that is a Unicode decimal digit becomes that
  digit, and any other makes the conversion fail. Then ASCII whitespace (tab, line feed,
  vertical tab, form feed, carriage return, space) is stripped at both ends, one sign is
  allowed, and decimal digits follow, with single underscores allowed between digits.
  Any other string raises \<^verbatim>\<open>ValueError\<close>, here \<open>None\<close>; so does a literal of
  more than 4300 digits, the interpreter's default limit for the conversion
  (\<^verbatim>\<open>sys.int_info.default_max_str_digits\<close>).

  The characters U+001C to U+001F are whitespace for \<^verbatim>\<open>str.isspace\<close> but are
  ASCII, so they are not stripped and make the conversion fail.

  The two steps are taken in one here. \<open>whitespace\<close> lists what is stripped: the six
  ASCII characters and the Unicode whitespace outside ASCII. \<open>digit_value\<close> is the
  value of an ASCII digit and of a Unicode decimal digit. The sign and the underscore
  are the ASCII ones only.
\<close>

definition whitespace :: "nat list" where
  "whitespace =
     [0x9, 0xA, 0xB, 0xC, 0xD, 0x20,
      0x85, 0xA0, 0x1680, 0x2000, 0x2001, 0x2002, 0x2003, 0x2004, 0x2005, 0x2006, 0x2007,
      0x2008, 0x2009, 0x200A, 0x2028, 0x2029, 0x202F, 0x205F, 0x3000]"

definition is_space :: "nat \<Rightarrow> bool" where
  "is_space c = (c \<in> set whitespace)"

text \<open>
  The decimal digits of Unicode come in runs of ten, from the digit zero of a script to
  its digit nine. \<open>decimal_zeros\<close> lists the zeros; the first is the ASCII one.
\<close>

definition decimal_zeros :: "nat list" where
  "decimal_zeros =
     [0x30, 0x660, 0x6F0, 0x7C0, 0x966, 0x9E6, 0xA66, 0xAE6, 0xB66, 0xBE6, 0xC66, 0xCE6,
      0xD66, 0xDE6, 0xE50, 0xED0, 0xF20, 0x1040, 0x1090, 0x17E0, 0x1810, 0x1946, 0x19D0,
      0x1A80, 0x1A90, 0x1B50, 0x1BB0, 0x1C40, 0x1C50, 0xA620, 0xA8D0, 0xA900, 0xA9D0,
      0xA9F0, 0xAA50, 0xABF0, 0xFF10, 0x104A0, 0x10D30, 0x11066, 0x110F0, 0x11136,
      0x111D0, 0x112F0, 0x11450, 0x114D0, 0x11650, 0x116C0, 0x11730, 0x118E0, 0x11950,
      0x11C50, 0x11D50, 0x11DA0, 0x16A60, 0x16AC0, 0x16B50, 0x1D7CE, 0x1D7D8, 0x1D7E2,
      0x1D7EC, 0x1D7F6, 0x1E140, 0x1E2F0, 0x1E950, 0x1FBF0]"

definition digit_value :: "nat \<Rightarrow> int option" where
  "digit_value c =
     (case find (\<lambda>z. z \<le> c \<and> c \<le> z + 9) decimal_zeros of
        None \<Rightarrow> None
      | Some z \<Rightarrow> Some (int (c - z)))"

definition strip :: "py_str \<Rightarrow> py_str" where
  "strip s = rev (dropWhile is_space (rev (dropWhile is_space s)))"

fun more_digits :: "int \<Rightarrow> py_str \<Rightarrow> int option" where
  "more_digits acc [] = Some acc"
| "more_digits acc [c] =
     (case digit_value c of None \<Rightarrow> None | Some v \<Rightarrow> Some (10 * acc + v))"
| "more_digits acc (c # c' # cs) =
     (if c = of_char CHR ''_'' then
        (case digit_value c' of None \<Rightarrow> None | Some v \<Rightarrow> more_digits (10 * acc + v) cs)
      else
        (case digit_value c of None \<Rightarrow> None | Some v \<Rightarrow> more_digits (10 * acc + v) (c' # cs)))"

definition max_str_digits :: nat where
  "max_str_digits = 4300"

definition digits :: "py_str \<Rightarrow> int option" where
  "digits s =
     (if max_str_digits < length (filter (\<lambda>c. digit_value c \<noteq> None) s) then None
      else
        (case s of
           [] \<Rightarrow> None
         | c # cs \<Rightarrow> (case digit_value c of None \<Rightarrow> None | Some v \<Rightarrow> more_digits v cs)))"

definition py_int :: "py_str \<Rightarrow> int option" where
  "py_int s =
     (case strip s of
        [] \<Rightarrow> None
      | c # cs \<Rightarrow>
          if c = of_char CHR ''+'' then digits cs
          else if c = of_char CHR ''-'' then map_option uminus (digits cs)
          else digits (c # cs))"

section \<open>The linker\<close>

definition benchmark_dataset_ids :: "int list" where
  "benchmark_dataset_ids =
     [181, 1111, 1596, 1457, 40981, 40983, 23517, 1489, 31, 40982, 41138, 41163, 41164, 41143,
      1169, 41167, 41147, 41158, 1487, 54, 41144, 41145, 41156, 41157, 41168, 4541, 1515, 188,
      1464, 1494, 1468, 1049, 23, 40975, 12, 1067, 40984, 40670, 3, 40978, 4134, 40701, 1475,
      4538, 4534, 41146, 41142, 40498, 40900, 40996, 40668, 4135, 1486, 41027, 1461, 1590, 41169,
      41166, 41165, 40685, 41159, 41161, 41150, 41162, 42733, 42734, 42732, 42746, 42742, 42769,
      43072]"

definition higgs_title :: py_str where
  "higgs_title =
     str ''Searching for exotic particles in high-energy physics with deep learning''"

text \<open>
  The condition of the first comprehension,
  \<^verbatim>\<open>d.node == "openml" and int(d.node_specific_identifier) in benchmark_dataset_ids\<close>.
  \<^verbatim>\<open>and\<close> is lazy: \<^verbatim>\<open>int\<close> is only called on a dataset of node "openml".
\<close>

definition is_benchmark :: "DatasetDescription \<Rightarrow> error + bool" where
  "is_benchmark d =
     (if node d = str ''openml'' then
        (case py_int (node_specific_identifier d) of
           None \<Rightarrow> Inl (ValueError (node_specific_identifier d))
         | Some n \<Rightarrow> Inr (n \<in> set benchmark_dataset_ids))
      else Inr False)"

text \<open>
  \<^verbatim>\<open>[d for d in datasets if ...]\<close> with the condition above, as references: the
  datasets are visited in order, \<open>i\<close> is the position of the head in the whole list,
  and the first dataset whose condition raises ends the comprehension.
\<close>

fun benchmark_refs :: "nat \<Rightarrow> DatasetDescription list \<Rightarrow> error + nat list" where
  "benchmark_refs i [] = Inr []"
| "benchmark_refs i (d # ds) =
     (case is_benchmark d of
        Inl e \<Rightarrow> Inl e
      | Inr b \<Rightarrow>
          (case benchmark_refs (Suc i) ds of
             Inl e \<Rightarrow> Inl e
           | Inr rs \<Rightarrow> Inr (if b then i # rs else rs)))"

text \<open>
  \<^verbatim>\<open>[d for d in datasets if d.node == "openml" and d.name == "Higgs"]\<close>, as
  references. No part of this condition can raise.
\<close>

fun higgs_refs :: "nat \<Rightarrow> DatasetDescription list \<Rightarrow> nat list" where
  "higgs_refs i [] = []"
| "higgs_refs i (d # ds) =
     (if node d = str ''openml'' \<and> name d = str ''Higgs'' then i # higgs_refs (Suc i) ds
      else higgs_refs (Suc i) ds)"

text \<open>
  The two loops assign \<^verbatim>\<open>publication.datasets\<close> on the selected publications and
  leave every other publication as it is. The loop over the Higgs publications runs
  first, the loop over the benchmark publications second.
\<close>

definition assign_datasets :: "py_str \<Rightarrow> nat list \<Rightarrow> Publication list \<Rightarrow> Publication list" where
  "assign_datasets t refs publications =
     map (\<lambda>p. if title p = t then p\<lparr>datasets := refs\<rparr> else p) publications"

definition link_datasets_with_publications ::
  "DatasetDescription list \<Rightarrow> Publication list \<Rightarrow>
   error + (DatasetDescription list \<times> Publication list)" where
  "link_datasets_with_publications datasets_list publications =
     (case benchmark_refs 0 datasets_list of
        Inl e \<Rightarrow> Inl e
      | Inr benchmark_datasets \<Rightarrow>
          Inr (datasets_list,
               assign_datasets (str ''AMLB: an AutoML Benchmark'') benchmark_datasets
                 (assign_datasets higgs_title (higgs_refs 0 datasets_list) publications)))"

section \<open>The session\<close>

text \<open>
  \<^verbatim>\<open>session.scalars(select(Publication)).first() or
  session.scalars(select(DatasetDescription)).first()\<close>: true when either table has a row.
\<close>

definition data_exists :: "store \<Rightarrow> bool" where
  "data_exists s = (publication_table s \<noteq> [] \<or> dataset_table s \<noteq> [])"

text \<open>
  Identifiers are auto-incremented integer keys: a new row gets the successor of the
  greatest identifier in its table, 1 in an empty table.
\<close>

definition next_id :: "(nat \<times> 'a) list \<Rightarrow> nat" where
  "next_id rows = Suc (fold max (map fst rows) 0)"

text \<open>
  \<^verbatim>\<open>session.add_all(datasets); session.add_all(publications); session.commit()\<close>:
  every object becomes a row, in the order it was added, and the association rows are
  read off \<^verbatim>\<open>publication.datasets\<close>: a reference to the dataset at position
  \<open>i\<close> becomes the identifier that dataset received.
\<close>

definition add_all_commit :: "store \<Rightarrow> DatasetDescription list \<Rightarrow> Publication list \<Rightarrow> store" where
  "add_all_commit s datasets_list publications =
     (let d0 = next_id (dataset_table s);
          p0 = next_id (publication_table s)
      in \<lparr>dataset_table =
            dataset_table s @ map (\<lambda>(i, d). (d0 + i, d)) (enumerate 0 datasets_list),
          publication_table =
            publication_table s @ map (\<lambda>(j, p). (p0 + j, title p)) (enumerate 0 publications),
          link_table =
            link_table s @
            concat (map (\<lambda>(j, p). map (\<lambda>i. (p0 + j, d0 + i)) (datasets p))
                      (enumerate 0 publications))\<rparr>)"

text \<open>
  The block \<^verbatim>\<open>with Session(engine) as session: ...\<close>: the check for existing
  data, and the insertion unless the check ends the call. The result is the outcome of
  the block and the store after it. (The statements of the session are taken to succeed:
  what a failing database does is not part of this model.)
\<close>

definition session_block ::
  "store \<Rightarrow> bool \<Rightarrow> DatasetDescription list \<Rightarrow> Publication list \<Rightarrow> (error + unit) \<times> store" where
  "session_block s only_if_empty datasets_list publications =
     (if only_if_empty \<and> data_exists s then (Inr (), s)
      else (Inr (), add_all_commit s datasets_list publications))"

section \<open>Population\<close>

text \<open>
  \<^verbatim>\<open>populate_database\<close>, with the store passed in and returned: the result is the
  outcome of the call (an exception or a normal return) and the store after it. The
  steps are in the order of the source: both connector lists are called, both chains are
  materialised, the linker runs, and only then the session is opened.
\<close>

definition populate_database ::
  "store \<Rightarrow> bool \<Rightarrow> DatasetDescription fetch_all list option \<Rightarrow>
   Publication fetch_all list option \<Rightarrow> int option \<Rightarrow> int option \<Rightarrow> (error + unit) \<times> store" where
  "populate_database s only_if_empty dataset_connectors publications_connectors
     limit_datasets limit_publications =
     (case make_iterable dataset_connectors limit_datasets of
        Inl e \<Rightarrow> (Inl e, s)
      | Inr datasets_iterable \<Rightarrow>
     (case make_iterable publications_connectors limit_publications of
        Inl e \<Rightarrow> (Inl e, s)
      | Inr publications_iterable \<Rightarrow>
     (case list_chain datasets_iterable of
        Inl e \<Rightarrow> (Inl e, s)
      | Inr datasets_list \<Rightarrow>
     (case list_chain publications_iterable of
        Inl e \<Rightarrow> (Inl e, s)
      | Inr publications \<Rightarrow>
     (case link_datasets_with_publications datasets_list publications of
        Inl e \<Rightarrow> (Inl e, s)
      | Inr (datasets', publications') \<Rightarrow>
          session_block s only_if_empty datasets' publications')))))"

text \<open>
  The number of rows of the store, over its three tables.
\<close>

definition row_count :: "store \<Rightarrow> nat" where
  "row_count s = length (dataset_table s) + length (publication_table s) + length (link_table s)"

text \<open>
  A fetch fails when the call of \<^verbatim>\<open>fetch_all\<close> raises or when the iterator it
  returned raises while it is exhausted. \<open>any_fetch_fails\<close> says that some connector
  of a configured list does.
\<close>

definition fetch_fails :: "'a fetch_all \<Rightarrow> int option \<Rightarrow> bool" where
  "fetch_fails c limit =
     (case c limit of
        Inl e \<Rightarrow> True
      | Inr (Iterator xs None) \<Rightarrow> False
      | Inr (Iterator xs (Some e)) \<Rightarrow> True)"

definition any_fetch_fails :: "'a fetch_all list option \<Rightarrow> int option \<Rightarrow> bool" where
  "any_fetch_fails connectors limit =
     (case connectors of
        None \<Rightarrow> False
      | Some cs \<Rightarrow> list_ex (\<lambda>c. fetch_fails c limit) cs)"

text \<open>
  The identifier columns are primary keys: no two rows of a table share an identifier.
\<close>

definition primary_keys_distinct :: "store \<Rightarrow> bool" where
  "primary_keys_distinct s =
     (distinct (map fst (dataset_table s)) \<and> distinct (map fst (publication_table s)))"

section \<open>The list endpoint\<close>

text \<open>
  The module that defines the routes is not among the sources; only its tests are.
  A response record is a JSON object, modelled as the list of its keys and values.
\<close>

datatype json_value = JInt nat | JStr py_str

definition dataset_json :: "nat \<times> DatasetDescription \<Rightarrow> (string \<times> json_value) list" where
  "dataset_json row =
     [(''id'', JInt (fst row)),
      (''name'', JStr (name (snd row))),
      (''node'', JStr (node (snd row))),
      (''node_specific_identifier'', JStr (node_specific_identifier (snd row)))]"

text \<open>
  Modelled from the spec: \<^verbatim>\<open>list_datasets\<close>, the handler of the list endpoint
  (the routes module is missing). The spec: "returns all stored Dataset Descriptions
  [...], each exposing exactly id, name, node, node_specific_identifier", "ordered by
  store-assigned id ascending", "direct pass-through to the store".
\<close>

definition list_datasets :: "store \<Rightarrow> (string \<times> json_value) list list" where
  "list_datasets s = map dataset_json (sort_key fst (dataset_table s))"

text \<open>
  The three rows that \<^verbatim>\<open>tests/test_get_datasets.py\<close> inserts into the empty store.
\<close>

definition test_get_datasets_rows :: "DatasetDescription list" where
  "test_get_datasets_rows =
     [\<lparr>name = str ''dset1'', node = str ''openml'', node_specific_identifier = str ''1''\<rparr>,
      \<lparr>name = str ''dset1'', node = str ''other_node'', node_specific_identifier = str ''1''\<rparr>,
      \<lparr>name = str ''dset2'', node = str ''other_node'', node_specific_identifier = str ''2''\<rparr>]"

section \<open>Example batches\<close>

text \<open>
  A batch of fetched datasets and publications: a benchmark dataset, a Higgs dataset of
  node "openml", a Higgs dataset of another node (whose identifier is no integer), and
  the two publications the linker knows.
\<close>

definition example_datasets :: "DatasetDescription list" where
  "example_datasets =
     [\<lparr>name = str ''yeast'', node = str ''openml'', node_specific_identifier = str ''181''\<rparr>,
      \<lparr>name = str ''Higgs'', node = str ''openml'', node_specific_identifier = str ''23512''\<rparr>,
      \<lparr>name = str ''Higgs'', node = str ''other_node'',
         node_specific_identifier = str ''h-1''\<rparr>]"

definition example_publications :: "Publication list" where
  "example_publications =
     [\<lparr>title = str ''AMLB: an AutoML Benchmark'', datasets = []\<rparr>,
      \<lparr>title =
         str ''Searching for exotic particles in high-energy physics with deep learning'',
       datasets = []\<rparr>]"

definition example_linked :: "Publication list" where
  "example_linked =
     [\<lparr>title = str ''AMLB: an AutoML Benchmark'', datasets = [0]\<rparr>,
      \<lparr>title =
         str ''Searching for exotic particles in high-energy physics with deep learning'',
       datasets = [1]\<rparr>]"

definition example_dataset_connectors :: "DatasetDescription fetch_all list option" where
  "example_dataset_connectors = Some [\<lambda>limit. Inr (Iterator example_datasets None)]"

definition example_publications_connectors :: "Publication fetch_all list option" where
  "example_publications_connectors = Some [\<lambda>limit. Inr (Iterator example_publications None)]"

text \<open>
  A connector list whose second connector raises after it has yielded one record.
\<close>

definition failing_dataset_connectors :: "DatasetDescription fetch_all list option" where
  "failing_dataset_connectors =
     Some [\<lambda>limit. Inr (Iterator example_datasets None),
           \<lambda>limit. Inr (Iterator [\<lparr>name = str ''anneal'', node = str ''openml'',
                                      node_specific_identifier = str ''1''\<rparr>]
                            (Some (ConnectorError ''connection reset'')))]"

text \<open>
  Batches on which the conversion of the identifier decides: an identifier that starts
  with U+001C (not stripped, so the conversion fails), and one that is padded with
  U+00A0 and U+3000 and written in Arabic-Indic digits (which converts, to 181).
\<close>

definition separator_dataset :: DatasetDescription where
  "separator_dataset =
     \<lparr>name = str ''yeast'', node = str ''openml'',
      node_specific_identifier = 0x1C # str ''181''\<rparr>"

definition padded_dataset :: DatasetDescription where
  "padded_dataset =
     \<lparr>name = str ''yeast'', node = str ''openml'',
      node_specific_identifier = [0xA0, 0x661, 0x668, 0x661, 0x3000]\<rparr>"

section \<open>The linker: what it assigns\<close>

lemma benchmark_refs_enumerate:
  "benchmark_refs i ds = Inr rs \<Longrightarrow>
   rs = map fst (filter (\<lambda>(k, d). is_benchmark d = Inr True) (enumerate i ds))"
  by (induction ds arbitrary: i rs) (auto split: sum.splits)

lemma benchmark_refs_set:
  assumes "benchmark_refs 0 ds = Inr rs"
  shows "set rs = {i. i < length ds \<and> is_benchmark (ds ! i) = Inr True}"
  using benchmark_refs_enumerate [OF assms]
  by (auto simp: in_set_enumerate_eq image_iff)




lemma is_benchmark_True_iff:
  "is_benchmark d = Inr True \<longleftrightarrow>
   node d = str ''openml'' \<and>
   (\<exists>n \<in> set benchmark_dataset_ids. py_int (node_specific_identifier d) = Some n)"
  by (auto simp: is_benchmark_def split: option.splits)


lemma higgs_refs_enumerate:
  "higgs_refs i ds =
   map fst (filter (\<lambda>(k, d). node d = str ''openml'' \<and> name d = str ''Higgs'') (enumerate i ds))"
  by (induction ds arbitrary: i) auto

lemma higgs_refs_set:
  "set (higgs_refs 0 ds) =
   {i. i < length ds \<and> node (ds ! i) = str ''openml'' \<and> name (ds ! i) = str ''Higgs''}"
  by (auto simp: higgs_refs_enumerate in_set_enumerate_eq image_iff)

lemma length_assign_datasets: "length (assign_datasets t refs ps) = length ps"
  by (simp add: assign_datasets_def)

lemma nth_assign_datasets:
  "j < length ps \<Longrightarrow>
   assign_datasets t refs ps ! j =
   (if title (ps ! j) = t then (ps ! j)\<lparr>datasets := refs\<rparr> else ps ! j)"
  by (simp add: assign_datasets_def)

lemma link_Inr:
  assumes "link_datasets_with_publications ds ps = Inr (ds', ps')"
  obtains rs where "benchmark_refs 0 ds = Inr rs" and "ds' = ds"
    and "ps' = assign_datasets (str ''AMLB: an AutoML Benchmark'') rs
                 (assign_datasets higgs_title (higgs_refs 0 ds) ps)"
  using assms by (auto simp: link_datasets_with_publications_def split: sum.splits)

lemma link_lengths:
  "link_datasets_with_publications ds ps = Inr (ds', ps') \<Longrightarrow>
   ds' = ds \<and> length ps' = length ps"
  by (auto simp: link_datasets_with_publications_def length_assign_datasets split: sum.splits)

lemma str_eq_iff: "str a = str b \<longleftrightarrow> a = b"
proof -
  have "inj (of_char :: char \<Rightarrow> nat)"
    by (simp add: inj_on_def)
  then show ?thesis
    by (simp add: str_def inj_map_eq_map)
qed

lemma titles_differ: "higgs_title \<noteq> str ''AMLB: an AutoML Benchmark''"
  by (simp add: higgs_title_def str_eq_iff)

subsection \<open>The conversion on concrete identifiers\<close>

text \<open>
  Below U+0660 the only digits are the ASCII ones, and below U+0085 the only whitespace
  is the ASCII one.
\<close>

lemma digit_value_low:
  "c < 1632 \<Longrightarrow>
   digit_value c = (if 48 \<le> c \<and> c \<le> 57 then Some (int (c - 48)) else None)"
  by (simp add: digit_value_def decimal_zeros_def)

lemma is_space_low: "c < 133 \<Longrightarrow> is_space c = (9 \<le> c \<and> c \<le> 13 \<or> c = 32)"
  by (auto simp: is_space_def whitespace_def)

lemma digit_value_arabic_indic: "digit_value 0x661 = Some 1" "digit_value 0x668 = Some 8"
  by (simp_all add: digit_value_def decimal_zeros_def)

lemma is_space_wide: "is_space 0xA0" "is_space 0x3000" "\<not> is_space 0x661"
  by (simp_all add: is_space_def whitespace_def)

lemmas py_int_simps =
  py_int_def strip_def digits_def max_str_digits_def str_def digit_value_low is_space_low

lemma py_int_181: "py_int (str ''181'') = Some 181"
  by (simp add: py_int_simps)

lemma py_int_23512: "py_int (str ''23512'') = Some 23512"
  by (simp add: py_int_simps)


text \<open>
  Whitespace around the literal, a sign, leading zeros and single underscores are
  accepted; whitespace inside the literal, a doubled or a trailing underscore, a sign
  alone and the empty string are not.
\<close>

lemma py_int_accepts:
  "py_int (str '' 181'' @ [0x0A]) = Some 181"
  "py_int (str ''+1_81'') = Some 181"
  "py_int (str ''-3'') = Some (- 3)"
  "py_int (str ''0181'') = Some 181"
  by (simp_all add: py_int_simps)

lemma py_int_rejects:
  "py_int (str ''18 1'') = None"
  "py_int (str ''1__81'') = None"
  "py_int (str ''181_'') = None"
  "py_int (str ''+'') = None"
  "py_int [] = None"
  by (simp_all add: py_int_simps)

text \<open>
  U+001C is not stripped; U+00A0 and U+3000 are, and the Arabic-Indic digits convert.
\<close>

lemma py_int_separator: "py_int (0x1C # str ''181'') = None"
  by (simp add: py_int_simps)

lemma py_int_padded: "py_int [0xA0, 0x661, 0x668, 0x661, 0x3000] = Some 181"
  by (simp add: py_int_def strip_def digits_def max_str_digits_def digit_value_arabic_indic
      is_space_wide)

text \<open>
  More than 4300 digits are refused, whatever else the string holds.
\<close>

lemma digits_limit:
  assumes "max_str_digits < length (filter (\<lambda>c. digit_value c \<noteq> None) s)"
  shows "digits s = None"
  using assms by (simp add: digits_def)

subsection \<open>The two rules\<close>

lemma link_example:
  "link_datasets_with_publications example_datasets example_publications =
   Inr (example_datasets, example_linked)"
  by (simp add: link_datasets_with_publications_def example_datasets_def
      example_publications_def example_linked_def assign_datasets_def higgs_title_def
      is_benchmark_def py_int_181 py_int_23512 benchmark_dataset_ids_def str_eq_iff)

text \<open>
  On the identifier that starts with U+001C the linker raises; on the padded one in
  Arabic-Indic digits it returns and links the dataset to the benchmark publication.
\<close>

lemma link_separator:
  "link_datasets_with_publications [separator_dataset] example_publications =
   Inl (ValueError (0x1C # str ''181''))"
  by (simp add: link_datasets_with_publications_def separator_dataset_def is_benchmark_def
      py_int_separator)

lemma link_padded:
  "link_datasets_with_publications [padded_dataset] example_publications =
   Inr ([padded_dataset],
        [\<lparr>title = str ''AMLB: an AutoML Benchmark'', datasets = [0]\<rparr>,
         \<lparr>title =
            str ''Searching for exotic particles in high-energy physics with deep learning'',
          datasets = []\<rparr>])"
  by (simp add: link_datasets_with_publications_def padded_dataset_def is_benchmark_def
      py_int_padded benchmark_dataset_ids_def example_publications_def assign_datasets_def
      higgs_title_def str_eq_iff)

text \<open>
  C7. When the linker returns, every publication whose title is exactly
  "AMLB: an AutoML Benchmark" has as its datasets the benchmark datasets of the batch:
  the datasets of node "openml" whose identifier, read as an integer, is in the
  allow-list. A dataset of node "openml" with the identifier "181" is among them. The
  datasets themselves and the other attributes of the publication are as they were.
\<close>

theorem linker_benchmark_publication:
  assumes "link_datasets_with_publications ds ps = Inr (ds', ps')"
    and "j < length ps"
    and "title (ps ! j) = str ''AMLB: an AutoML Benchmark''"
  shows "ds' = ds \<and> length ps' = length ps \<and>
    title (ps' ! j) = str ''AMLB: an AutoML Benchmark'' \<and>
    set (datasets (ps' ! j)) =
      {i. i < length ds \<and> node (ds ! i) = str ''openml'' \<and>
          (\<exists>n \<in> set benchmark_dataset_ids.
              py_int (node_specific_identifier (ds ! i)) = Some n)} \<and>
    (\<forall>i < length ds.
        node (ds ! i) = str ''openml'' \<and> node_specific_identifier (ds ! i) = str ''181''
        \<longrightarrow> i \<in> set (datasets (ps' ! j)))"
proof -
  from assms(1) obtain rs where rs: "benchmark_refs 0 ds = Inr rs" and ds: "ds' = ds"
    and ps: "ps' = assign_datasets (str ''AMLB: an AutoML Benchmark'') rs
                 (assign_datasets higgs_title (higgs_refs 0 ds) ps)"
    by (rule link_Inr)
  have len: "length ps' = length ps"
    by (simp add: ps length_assign_datasets)
  have nth: "ps' ! j = (ps ! j)\<lparr>datasets := rs\<rparr>"
    using assms(2,3) titles_differ
    by (simp add: ps nth_assign_datasets length_assign_datasets)
  have set_rs: "set rs = {i. i < length ds \<and> node (ds ! i) = str ''openml'' \<and>
          (\<exists>n \<in> set benchmark_dataset_ids.
              py_int (node_specific_identifier (ds ! i)) = Some n)}"
    by (simp add: benchmark_refs_set [OF rs] is_benchmark_True_iff)
  have "181 \<in> set benchmark_dataset_ids"
    by (simp add: benchmark_dataset_ids_def)
  then have in181: "\<forall>i < length ds.
        node (ds ! i) = str ''openml'' \<and> node_specific_identifier (ds ! i) = str ''181''
        \<longrightarrow> i \<in> set rs"
    unfolding set_rs using py_int_181 by auto
  show ?thesis
    using ds len nth set_rs in181 assms(3) by simp
qed

theorem linker_benchmark_publication_witness:
  "link_datasets_with_publications example_datasets example_publications =
     Inr (example_datasets, example_linked) \<and>
   0 < length example_publications \<and>
   title (example_publications ! 0) = str ''AMLB: an AutoML Benchmark'' \<and>
   node (example_datasets ! 0) = str ''openml'' \<and>
   node_specific_identifier (example_datasets ! 0) = str ''181'' \<and>
   0 \<in> set (datasets (example_linked ! 0)) \<and>
   1 \<notin> set (datasets (example_linked ! 0))"
proof -
  have t: "0 < length example_publications"
    "title (example_publications ! 0) = str ''AMLB: an AutoML Benchmark''"
    by (simp_all add: example_publications_def)
  have d: "0 < length example_datasets" "node (example_datasets ! 0) = str ''openml''"
    "node_specific_identifier (example_datasets ! 0) = str ''181''"
    by (simp_all add: example_datasets_def)
  from linker_benchmark_publication [OF link_example t]
  have "\<forall>i < length example_datasets.
        node (example_datasets ! i) = str ''openml'' \<and>
        node_specific_identifier (example_datasets ! i) = str ''181''
        \<longrightarrow> i \<in> set (datasets (example_linked ! 0))"
    by blast
  with d have "0 \<in> set (datasets (example_linked ! 0))" by blast
  moreover have "1 \<notin> set (datasets (example_linked ! 0))"
    by (simp add: example_linked_def)
  ultimately show ?thesis using link_example t d by blast
qed

text \<open>
  C8. When the linker returns, every publication whose title is exactly "Searching for
  exotic particles in high-energy physics with deep learning" has as its datasets
  exactly the datasets of the batch with node "openml" and name "Higgs". A dataset
  named "Higgs" of any other node is not among them.
\<close>

theorem linker_higgs_publication:
  assumes "link_datasets_with_publications ds ps = Inr (ds', ps')"
    and "j < length ps"
    and "title (ps ! j) =
           str ''Searching for exotic particles in high-energy physics with deep learning''"
  shows "set (datasets (ps' ! j)) =
      {i. i < length ds \<and> node (ds ! i) = str ''openml'' \<and> name (ds ! i) = str ''Higgs''} \<and>
    (\<forall>i < length ds. name (ds ! i) = str ''Higgs'' \<and> node (ds ! i) \<noteq> str ''openml''
        \<longrightarrow> i \<notin> set (datasets (ps' ! j)))"
proof -
  from assms(1) obtain rs where rs: "benchmark_refs 0 ds = Inr rs"
    and ps: "ps' = assign_datasets (str ''AMLB: an AutoML Benchmark'') rs
                 (assign_datasets higgs_title (higgs_refs 0 ds) ps)"
    by (rule link_Inr)
  have t: "title (ps ! j) = higgs_title"
    using assms(3) by (simp add: higgs_title_def)
  have nth: "ps' ! j = (ps ! j)\<lparr>datasets := higgs_refs 0 ds\<rparr>"
    using assms(2) t titles_differ
    by (simp add: ps nth_assign_datasets length_assign_datasets)
  show ?thesis
    by (simp add: nth higgs_refs_set)
qed

theorem linker_higgs_publication_witness:
  "link_datasets_with_publications example_datasets example_publications =
     Inr (example_datasets, example_linked) \<and>
   1 < length example_publications \<and>
   title (example_publications ! 1) =
     str ''Searching for exotic particles in high-energy physics with deep learning'' \<and>
   name (example_datasets ! 2) = str ''Higgs'' \<and> node (example_datasets ! 2) = str ''other_node'' \<and>
   2 \<notin> set (datasets (example_linked ! 1)) \<and>
   name (example_datasets ! 1) = str ''Higgs'' \<and> node (example_datasets ! 1) = str ''openml'' \<and>
   1 \<in> set (datasets (example_linked ! 1))"
proof -
  have t: "1 < length example_publications"
    "title (example_publications ! 1) =
       str ''Searching for exotic particles in high-energy physics with deep learning''"
    by (simp_all add: example_publications_def)
  have d: "2 < length example_datasets" "name (example_datasets ! 2) = str ''Higgs''"
    "node (example_datasets ! 2) = str ''other_node''" "node (example_datasets ! 2) \<noteq> str ''openml''"
    "1 < length example_datasets" "name (example_datasets ! 1) = str ''Higgs''"
    "node (example_datasets ! 1) = str ''openml''"
    by (simp_all add: example_datasets_def str_eq_iff)
  note th = linker_higgs_publication [OF link_example t]
  from th d have "2 \<notin> set (datasets (example_linked ! 1))" by blast
  moreover from th d have "1 \<in> set (datasets (example_linked ! 1))" by blast
  ultimately show ?thesis using link_example t d by blast
qed



section \<open>Population: what it writes\<close>

lemma populate_store_cases:
  "snd (populate_database s oie dcs pcs ld lp) = s \<or>
   (\<exists>its pits ds ps ds' ps'.
      make_iterable dcs ld = Inr its \<and> make_iterable pcs lp = Inr pits \<and>
      list_chain its = Inr ds \<and> list_chain pits = Inr ps \<and>
      link_datasets_with_publications ds ps = Inr (ds', ps') \<and>
      \<not> (oie \<and> data_exists s) \<and>
      populate_database s oie dcs pcs ld lp = (Inr (), add_all_commit s ds' ps'))"
  by (simp add: populate_database_def session_block_def split: sum.splits prod.splits)

lemma populate_guarded:
  "data_exists s \<Longrightarrow> snd (populate_database s True dcs pcs ld lp) = s"
  by (simp add: populate_database_def session_block_def split: sum.splits prod.splits)

lemma enumerate_eq_Nil: "enumerate n xs = [] \<longleftrightarrow> xs = []"
  by (cases xs) simp_all

lemma add_all_commit_Nil: "add_all_commit s [] [] = s"
  by (simp add: add_all_commit_def)

lemma data_exists_add_all_commit:
  "data_exists (add_all_commit s ds ps) \<longleftrightarrow> data_exists s \<or> ds \<noteq> [] \<or> ps \<noteq> []"
  by (auto simp: data_exists_def add_all_commit_def Let_def enumerate_eq_Nil)

text \<open>
  C4. On a store that has data, a population with \<^verbatim>\<open>only_if_empty=True\<close> leaves the
  three tables of the store as they were, whatever the connectors return.
\<close>

theorem populate_only_if_empty_noop:
  assumes "data_exists s"
  shows "dataset_table (snd (populate_database s True dcs pcs ld lp)) = dataset_table s \<and>
         publication_table (snd (populate_database s True dcs pcs ld lp)) = publication_table s \<and>
         link_table (snd (populate_database s True dcs pcs ld lp)) = link_table s \<and>
         snd (populate_database s True dcs pcs ld lp) = s"
  using populate_guarded [OF assms] by simp

theorem populate_only_if_empty_noop_witness:
  "data_exists (add_all_commit empty_store test_get_datasets_rows []) \<and>
   snd (populate_database (add_all_commit empty_store test_get_datasets_rows []) True
          example_dataset_connectors example_publications_connectors None None) =
     add_all_commit empty_store test_get_datasets_rows []"
proof -
  have h: "data_exists (add_all_commit empty_store test_get_datasets_rows [])"
    by (simp add: test_get_datasets_rows_def data_exists_add_all_commit)
  from populate_only_if_empty_noop [OF h] h show ?thesis by blast
qed

lemma fetch_fails_list_chain:
  "list_ex (\<lambda>c. fetch_fails c limit) cs \<Longrightarrow> call_fetch_all cs limit = Inr its \<Longrightarrow>
   \<exists>e. list_chain its = Inl e"
proof (induction cs arbitrary: its)
  case Nil
  then show ?case by simp
next
  case (Cons c cs)
  from Cons.prems(2) obtain it its' where c: "c limit = Inr it"
    and cs: "call_fetch_all cs limit = Inr its'" and its: "its = it # its'"
    by (auto split: sum.splits)
  obtain xs r where it: "it = Iterator xs r" by (cases it)
  show ?case
  proof (cases r)
    case (Some e)
    then show ?thesis by (simp add: its it)
  next
    case None
    with c it have "\<not> fetch_fails c limit" by (simp add: fetch_fails_def)
    with Cons.prems(1) have "list_ex (\<lambda>c. fetch_fails c limit) cs" by simp
    from Cons.IH [OF this cs] obtain e where "list_chain its' = Inl e" ..
    then show ?thesis by (simp add: its it None)
  qed
qed

lemma any_fetch_fails_materialise:
  assumes "any_fetch_fails connectors limit"
  shows "(\<exists>e. make_iterable connectors limit = Inl e) \<or>
         (\<exists>its e. make_iterable connectors limit = Inr its \<and> list_chain its = Inl e)"
proof -
  from assms obtain cs where cs: "connectors = Some cs"
    and ex: "list_ex (\<lambda>c. fetch_fails c limit) cs"
    by (auto simp: any_fetch_fails_def split: option.splits)
  show ?thesis
  proof (cases "call_fetch_all cs limit")
    case (Inl e)
    then show ?thesis by (simp add: make_iterable_def cs)
  next
    case (Inr its)
    with fetch_fails_list_chain [OF ex Inr] show ?thesis
      by (simp add: make_iterable_def cs)
  qed
qed

text \<open>
  C5. When the fetch of any dataset connector or of any publication connector fails, at
  the call of \<^verbatim>\<open>fetch_all\<close> or while its iterator is exhausted, the population
  raises and the store after the call is the store before it.
\<close>

theorem populate_fetch_failure:
  assumes "any_fetch_fails dcs ld \<or> any_fetch_fails pcs lp"
  shows "\<exists>e. populate_database s oie dcs pcs ld lp = (Inl e, s)"
proof -
  from assms consider (d) "any_fetch_fails dcs ld" | (p) "any_fetch_fails pcs lp" by blast
  then show ?thesis
  proof cases
    case d
    from any_fetch_fails_materialise [OF d] show ?thesis
      by (auto simp: populate_database_def split: sum.splits)
  next
    case p
    from any_fetch_fails_materialise [OF p] show ?thesis
      by (auto simp: populate_database_def split: sum.splits)
  qed
qed

theorem populate_fetch_failure_witness:
  "any_fetch_fails failing_dataset_connectors None \<and>
   (\<exists>e. populate_database empty_store False failing_dataset_connectors
           example_publications_connectors None None = (Inl e, empty_store))"
proof -
  have h: "any_fetch_fails failing_dataset_connectors None"
    by (simp add: any_fetch_fails_def failing_dataset_connectors_def fetch_fails_def)
  then have "any_fetch_fails failing_dataset_connectors None \<or>
      any_fetch_fails example_publications_connectors None"
    by (rule disjI1)
  from populate_fetch_failure [OF this] h show ?thesis by blast
qed

lemma populate_twice:
  "snd (populate_database (snd (populate_database s True dcs pcs ld lp)) True dcs pcs ld lp) =
   snd (populate_database s True dcs pcs ld lp)"
proof -
  let ?s1 = "snd (populate_database s True dcs pcs ld lp)"
  show ?thesis
  proof (cases "data_exists ?s1")
    case True
    then show ?thesis by (rule populate_guarded)
  next
    case False
    from populate_store_cases [of s True dcs pcs ld lp]
    show ?thesis
    proof
      assume "?s1 = s"
      then show ?thesis by simp
    next
      assume "\<exists>its pits ds ps ds' ps'.
        make_iterable dcs ld = Inr its \<and> make_iterable pcs lp = Inr pits \<and>
        list_chain its = Inr ds \<and> list_chain pits = Inr ps \<and>
        link_datasets_with_publications ds ps = Inr (ds', ps') \<and>
        \<not> (True \<and> data_exists s) \<and>
        populate_database s True dcs pcs ld lp = (Inr (), add_all_commit s ds' ps')"
      then obtain ds' ps' where
        s1: "populate_database s True dcs pcs ld lp = (Inr (), add_all_commit s ds' ps')"
        by blast
      from False s1 have "ds' = []" "ps' = []"
        by (simp_all add: data_exists_add_all_commit)
      with s1 have "?s1 = s" by (simp add: add_all_commit_Nil)
      then show ?thesis by simp
    qed
  qed
qed

lemma populate_example:
  "snd (populate_database empty_store True example_dataset_connectors
          example_publications_connectors None None) =
   \<lparr>dataset_table =
      [(1, \<lparr>name = str ''yeast'', node = str ''openml'', node_specific_identifier = str ''181''\<rparr>),
       (2, \<lparr>name = str ''Higgs'', node = str ''openml'', node_specific_identifier = str ''23512''\<rparr>),
       (3, \<lparr>name = str ''Higgs'', node = str ''other_node'', node_specific_identifier = str ''h-1''\<rparr>)],
    publication_table =
      [(1, str ''AMLB: an AutoML Benchmark''),
       (2, str ''Searching for exotic particles in high-energy physics with deep learning'')],
    link_table = [(1, 1), (2, 2)]\<rparr>"
proof -
  have "populate_database empty_store True example_dataset_connectors
          example_publications_connectors None None =
        (Inr (), add_all_commit empty_store example_datasets example_linked)"
    by (simp add: populate_database_def session_block_def make_iterable_def
        example_dataset_connectors_def example_publications_connectors_def link_example
        data_exists_def empty_store_def)
  then show ?thesis
    by (simp add: add_all_commit_def empty_store_def next_id_def example_datasets_def
        example_linked_def)
qed

text \<open>
  C6. On a store without data, two populations in succession with
  \<^verbatim>\<open>only_if_empty=True\<close> and the same connectors leave as many rows as one: the
  second one inserts nothing. (A connector is a function here: called again with the same
  limit it fetches the same records.)
\<close>

theorem populate_idempotent_row_count:
  assumes "\<not> data_exists s"
  shows "row_count (snd (populate_database (snd (populate_database s True dcs pcs ld lp))
                           True dcs pcs ld lp)) =
         row_count (snd (populate_database s True dcs pcs ld lp))"
  by (simp add: populate_twice)

theorem populate_idempotent_row_count_witness:
  "\<not> data_exists empty_store \<and>
   row_count (snd (populate_database
                    (snd (populate_database empty_store True example_dataset_connectors
                            example_publications_connectors None None))
                    True example_dataset_connectors example_publications_connectors
                    None None)) = 7"
proof -
  have h: "\<not> data_exists empty_store"
    by (simp add: data_exists_def empty_store_def)
  have "row_count (snd (populate_database empty_store True example_dataset_connectors
                          example_publications_connectors None None)) = 7"
    by (simp add: populate_example row_count_def)
  with populate_idempotent_row_count [OF h, of example_dataset_connectors
      example_publications_connectors None None] h
  show ?thesis by simp
qed

section \<open>The list endpoint: what it returns\<close>

lemma fold_max_mono: "b \<le> fold max ys (b::nat)"
  by (induction ys arbitrary: b) (auto intro: order_trans [OF max.cobounded2])

lemma fold_max_ge: "x \<in> set xs \<Longrightarrow> x \<le> fold max xs (a::nat)"
proof (induction xs arbitrary: a)
  case Nil
  then show ?case by simp
next
  case (Cons y ys)
  show ?case
  proof (cases "x = y")
    case True
    have "y \<le> max y a" by simp
    also have "\<dots> \<le> fold max ys (max y a)" by (rule fold_max_mono)
    finally show ?thesis using True by simp
  next
    case False
    with Cons.prems have "x \<in> set ys" by simp
    from Cons.IH [OF this] show ?thesis by simp
  qed
qed

lemma next_id_fresh:
  assumes "(k, v) \<in> set rows"
  shows "k < next_id rows"
proof -
  from assms have "k \<in> set (map fst rows)" by force
  then have "k \<le> fold max (map fst rows) 0" by (rule fold_max_ge)
  then show ?thesis by (simp add: next_id_def)
qed

lemma map_fst_enumerate_from:
  "map fst (map (\<lambda>(i, x). (b + i, f x)) (enumerate n xs)) = [b + n..<b + n + length xs]"
proof (induction xs arbitrary: n)
  case Nil
  then show ?case by simp
next
  case (Cons x xs)
  have "b + n < b + n + length (x # xs)" by simp
  then have "[b + n..<b + n + length (x # xs)] =
      (b + n) # [Suc (b + n)..<b + n + length (x # xs)]"
    by (rule upt_conv_Cons)
  with Cons.IH [of "Suc n"] show ?case by simp
qed

lemma map_fst_enumerate_shift:
  "map fst (map (\<lambda>(i, x). (b + i, f x)) (enumerate 0 xs)) = [b..<b + length xs]"
  using map_fst_enumerate_from [of b f 0 xs] by simp

lemma distinct_append_fresh:
  assumes "distinct (map fst rows)"
  shows "distinct (map fst (rows @ map (\<lambda>(i, x). (next_id rows + i, f x)) (enumerate 0 xs)))"
proof -
  have "\<forall>k \<in> set (map fst rows). k < next_id rows"
    using next_id_fresh by force
  then have "set (map fst rows) \<inter> set [next_id rows..<next_id rows + length xs] = {}"
    by auto
  with assms show ?thesis
    by (simp only: map_append distinct_append map_fst_enumerate_shift distinct_upt)
qed

lemma primary_keys_distinct_empty: "primary_keys_distinct empty_store"
  by (simp add: primary_keys_distinct_def empty_store_def)

lemma primary_keys_distinct_add_all_commit:
  assumes "primary_keys_distinct s"
  shows "primary_keys_distinct (add_all_commit s ds ps)"
proof -
  have d: "distinct (map fst (dataset_table s @
             map (\<lambda>(i, d). (next_id (dataset_table s) + i, id d)) (enumerate 0 ds)))"
    using assms by (intro distinct_append_fresh) (simp add: primary_keys_distinct_def)
  have p: "distinct (map fst (publication_table s @
             map (\<lambda>(j, p). (next_id (publication_table s) + j, title p)) (enumerate 0 ps)))"
    using assms by (intro distinct_append_fresh) (simp add: primary_keys_distinct_def)
  from d p show ?thesis
    by (simp add: primary_keys_distinct_def add_all_commit_def Let_def)
qed

lemma primary_keys_distinct_populate:
  assumes "primary_keys_distinct s"
  shows "primary_keys_distinct (snd (populate_database s oie dcs pcs ld lp))"
  using populate_store_cases [of s oie dcs pcs ld lp] assms
  by (auto simp: primary_keys_distinct_add_all_commit)

lemma map_of_dataset_json_id: "map_of (dataset_json row) ''id'' = Some (JInt (fst row))"
  by (simp add: dataset_json_def)

text \<open>
  C9. On a store with exactly three dataset rows (their identifiers distinct, as primary
  keys are), the list endpoint returns exactly three records, each with exactly the
  four fields id, name, node and node_specific_identifier, and the three ids are
  pairwise distinct.
\<close>

theorem list_datasets_three_rows:
  assumes "primary_keys_distinct s" and "length (dataset_table s) = 3"
  shows "length (list_datasets s) = 3 \<and>
         (\<forall>r \<in> set (list_datasets s).
            map fst r = [''id'', ''name'', ''node'', ''node_specific_identifier'']) \<and>
         distinct (map (\<lambda>r. map_of r ''id'') (list_datasets s))"
proof (intro conjI)
  show "length (list_datasets s) = 3"
    using assms(2) by (simp add: list_datasets_def)
  show "\<forall>r \<in> set (list_datasets s).
            map fst r = [''id'', ''name'', ''node'', ''node_specific_identifier'']"
    by (auto simp: list_datasets_def dataset_json_def)
  have "mset (map fst (sort_key fst (dataset_table s))) = mset (map fst (dataset_table s))"
    by simp
  then have "distinct (map fst (sort_key fst (dataset_table s)))"
    using assms(1) mset_eq_imp_distinct_iff unfolding primary_keys_distinct_def by blast
  then have "distinct (map (\<lambda>row. Some (JInt (fst row))) (sort_key fst (dataset_table s)))"
    by (simp add: distinct_map inj_on_def)
  then show "distinct (map (\<lambda>r. map_of r ''id'') (list_datasets s))"
    by (simp add: list_datasets_def comp_def map_of_dataset_json_id)
qed

theorem list_datasets_three_rows_witness:
  "primary_keys_distinct (add_all_commit empty_store test_get_datasets_rows []) \<and>
   length (dataset_table (add_all_commit empty_store test_get_datasets_rows [])) = 3 \<and>
   length (list_datasets (add_all_commit empty_store test_get_datasets_rows [])) = 3 \<and>
   distinct (map (\<lambda>r. map_of r ''id'')
               (list_datasets (add_all_commit empty_store test_get_datasets_rows []))) \<and>
   map (\<lambda>r. map_of r ''id'')
     (list_datasets (add_all_commit empty_store test_get_datasets_rows [])) =
     [Some (JInt 1), Some (JInt 2), Some (JInt 3)]"
proof -
  let ?s = "add_all_commit empty_store test_get_datasets_rows []"
  have k: "primary_keys_distinct ?s"
    by (rule primary_keys_distinct_add_all_commit) (rule primary_keys_distinct_empty)
  have l: "length (dataset_table ?s) = 3"
    by (simp add: add_all_commit_def Let_def empty_store_def test_get_datasets_rows_def)
  have ids: "map (\<lambda>r. map_of r ''id'') (list_datasets ?s) =
      [Some (JInt 1), Some (JInt 2), Some (JInt 3)]"
    by (simp add: list_datasets_def add_all_commit_def empty_store_def
        test_get_datasets_rows_def next_id_def dataset_json_def enumerate_eq_zip)
  from list_datasets_three_rows [OF k l] k l ids show ?thesis by blast
qed

end
